theory Spec2Isabelle
  imports Main
begin

section \<open>JavaScript values and objects\<close>

text \<open>
  The session of \<^verbatim>\<open>packages/simple-auth/lib/simple-auth/session.js\<close> handles values it
  never inspects (the data an authenticator resolves with, error payloads, options). They
  are JavaScript values; numbers are kept as integers, which is all the session's own tests
  (\<^verbatim>\<open>!!x\<close>, \<^verbatim>\<open>Ember.isEmpty\<close>) can see of them here. An object is a finite map from
  property names to values; a property may hold \<^verbatim>\<open>undefined\<close>.
\<close>

datatype jsval =
    JUndefined
  | JNull
  | JBool bool
  | JNum int
  | JStr string
  | JObj "string \<Rightarrow> jsval option"

type_synonym props = "string \<Rightarrow> jsval option"

text \<open>\<^verbatim>\<open>!!v\<close>: JavaScript truthiness.\<close>

fun truthy :: "jsval \<Rightarrow> bool" where
  "truthy JUndefined = False"
| "truthy JNull = False"
| "truthy (JBool b) = b"
| "truthy (JNum n) = (n \<noteq> 0)"
| "truthy (JStr s) = (s \<noteq> [])"
| "truthy (JObj m) = True"

text \<open>
  \<^verbatim>\<open>Ember.isEmpty(v)\<close>: \<^verbatim>\<open>null\<close>, \<^verbatim>\<open>undefined\<close>, the empty string, and an object
  whose \<^verbatim>\<open>length\<close> property is 0.
\<close>

fun isEmpty :: "jsval \<Rightarrow> bool" where
  "isEmpty JUndefined = True"
| "isEmpty JNull = True"
| "isEmpty (JStr s) = (s = [])"
| "isEmpty (JObj m) = (m ''length'' = Some (JNum 0))"
| "isEmpty (JBool b) = False"
| "isEmpty (JNum n) = False"

text \<open>\<^verbatim>\<open>obj[k]\<close>: reading a property that is absent gives \<^verbatim>\<open>undefined\<close>.\<close>

definition js_get :: "props \<Rightarrow> string \<Rightarrow> jsval" where
  "js_get obj k = (case obj k of None \<Rightarrow> JUndefined | Some v \<Rightarrow> v)"

text \<open>\<^verbatim>\<open>delete obj[k]\<close>.\<close>

definition js_delete :: "props \<Rightarrow> string \<Rightarrow> props" where
  "js_delete obj k = obj(k := None)"

text \<open>
  \<^verbatim>\<open>Ember.$.extend(target, options)\<close> is jQuery's shallow \<^verbatim>\<open>extend\<close>: every property of
  \<^verbatim>\<open>options\<close> is copied onto \<^verbatim>\<open>target\<close>, except those whose value is \<^verbatim>\<open>undefined\<close>
  (jQuery copies under \<^verbatim>\<open>if ( copy !== undefined )\<close>), which leave \<^verbatim>\<open>target\<close> as it is.
\<close>

definition js_extend :: "props \<Rightarrow> props \<Rightarrow> props" where
  "js_extend target options =
     (\<lambda>k. case options k of
            None \<Rightarrow> target k
          | Some copy \<Rightarrow> if copy \<noteq> JUndefined then Some copy else target k)"

section \<open>The session, its store and the authenticators\<close>

text \<open>The events the session triggers on itself, in the order of the source's documentation.\<close>

datatype event =
    SessionAuthenticationSucceeded
  | SessionAuthenticationFailed jsval
  | SessionInvalidationSucceeded
  | SessionInvalidationFailed jsval

text \<open>The two events of an authenticator the session listens to.\<close>

datatype authenticator_event = SessionDataUpdated | SessionDataInvalidated

text \<open>
  The session object with the collaborators' state it acts on. \<open>authenticatorFactory\<close>,
  \<open>isAuthenticated\<close>, \<open>attemptedTransition\<close> and \<open>content\<close> are the properties of the
  source's \<^verbatim>\<open>Ember.ObjectProxy.extend\<close> call; its \<^verbatim>\<open>store\<close> property is the Store
  object, of which \<open>store\<close> here is the snapshot it holds. \<open>listeners\<close> are the handlers
  the session has registered on authenticators, each as the authenticator's name in the
  container and the event, in registration order; \<open>triggered\<close> is the trace of events the
  session has triggered; \<open>deferred\<close> is Ember's counter of open
  \<^verbatim>\<open>beginPropertyChanges\<close>.
\<close>

record session =
  authenticatorFactory :: jsval
  isAuthenticated :: bool
  attemptedTransition :: jsval
  content :: props
  store :: props
  listeners :: "(string \<times> authenticator_event) list"
  triggered :: "event list"
  deferred :: nat

text \<open>
  A promise an authenticator returns either resolves with session data, rejects with an
  error payload, or never settles.
\<close>

datatype settlement = Resolves props | Rejects jsval | Pends

text \<open>
  Modelled from the spec: the Authenticator (\<^verbatim>\<open>Authenticators.Base\<close> and its subclasses) is
  not in the source file; the spec gives its interface as
  \<^verbatim>\<open>authenticate(options)\<close>, \<^verbatim>\<open>restore(data)\<close> and \<^verbatim>\<open>invalidate(data)\<close>, each with an
  asynchronous result. An authenticator is the three functions, each giving how the promise
  of a call settles.
\<close>

record authenticator =
  auth_authenticate :: "jsval \<Rightarrow> settlement"
  auth_restore :: "props \<Rightarrow> settlement"
  auth_invalidate :: "props \<Rightarrow> settlement"

text \<open>
  Modelled from the spec: the container (Ember's registry) is not in the source file; the
  spec gives \<^verbatim>\<open>lookup(identifier)\<close>, resolved by the factory identifier string. A value that
  is not the name of a registered authenticator gives no instance, and the method call the
  source makes on the result of such a lookup throws a \<^verbatim>\<open>TypeError\<close>.
\<close>

type_synonym container = "string \<Rightarrow> authenticator option"

definition lookup :: "container \<Rightarrow> jsval \<Rightarrow> (string \<times> authenticator) option" where
  "lookup cont v =
     (case v of
        JStr name \<Rightarrow> (case cont name of None \<Rightarrow> None | Some a \<Rightarrow> Some (name, a))
      | _ \<Rightarrow> None)"

datatype error = TypeError | AssertionFailed

text \<open>
  A call either returns a value or throws; the session it leaves behind is part of both,
  since a throw does not undo the assignments made before it.
\<close>

datatype 'a completion = Returns 'a session | Throws error session

fun state_of :: "'a completion \<Rightarrow> session" where
  "state_of (Returns v s) = s"
| "state_of (Throws e s) = s"

fun value_of :: "'a completion \<Rightarrow> 'a option" where
  "value_of (Returns v s) = Some v"
| "value_of (Throws e s) = None"

text \<open>
  The promise a session method returns, as it stands once the authenticator's promise has
  settled and the callbacks have run. \<open>RejectedWith\<close> is the rejection RSVP makes of an
  exception thrown inside the promise's resolver function.
\<close>

datatype promise = Pending | Fulfilled jsval | Rejected jsval | RejectedWith error

text \<open>
  Modelled from the spec: the Store (\<^verbatim>\<open>Stores.Base\<close> and its subclasses) is not in the
  source file. The spec gives it a persisted snapshot with a synchronous read
  (\<^verbatim>\<open>restore()\<close>, which hands out a copy), a write of a whole mapping (the source calls
  it \<^verbatim>\<open>replace(data)\<close>) and \<^verbatim>\<open>clear()\<close>, which leaves the empty mapping.
\<close>

definition store_restore :: "session \<Rightarrow> props" where
  "store_restore s = store s"

definition store_replace :: "props \<Rightarrow> session \<Rightarrow> session" where
  "store_replace data s = s\<lparr>store := data\<rparr>"

definition store_clear :: "session \<Rightarrow> session" where
  "store_clear s = s\<lparr>store := Map.empty\<rparr>"

text \<open>
  \<^verbatim>\<open>authenticator.off(name)\<close> removes every handler of that event from the authenticator,
  \<^verbatim>\<open>authenticator.on(name, handler)\<close> adds one. \<^verbatim>\<open>this.trigger(name, ...)\<close> on the session
  is recorded in the trace.
\<close>

definition authenticator_off :: "string \<Rightarrow> authenticator_event \<Rightarrow> session \<Rightarrow> session" where
  "authenticator_off name ev s = s\<lparr>listeners := filter (\<lambda>l. l \<noteq> (name, ev)) (listeners s)\<rparr>"

definition authenticator_on :: "string \<Rightarrow> authenticator_event \<Rightarrow> session \<Rightarrow> session" where
  "authenticator_on name ev s = s\<lparr>listeners := listeners s @ [(name, ev)]\<rparr>"

definition trigger :: "event \<Rightarrow> session \<Rightarrow> session" where
  "trigger ev s = s\<lparr>triggered := triggered s @ [ev]\<rparr>"

definition beginPropertyChanges :: "session \<Rightarrow> session" where
  "beginPropertyChanges s = s\<lparr>deferred := deferred s + 1\<rparr>"

definition endPropertyChanges :: "session \<Rightarrow> session" where
  "endPropertyChanges s = s\<lparr>deferred := deferred s - 1\<rparr>"

text \<open>
  The session as the class declares it: not authenticated, no factory, empty content.
  The Store may hold a snapshot from an earlier page load. \<^verbatim>\<open>init\<close> registers the one
  handler of the Store's \<^verbatim>\<open>sessionDataUpdated\<close> event, which is
  \<open>store_sessionDataUpdated\<close> below.
\<close>

definition init :: "props \<Rightarrow> session" where
  "init snapshot =
     \<lparr> authenticatorFactory = JNull, isAuthenticated = False, attemptedTransition = JNull,
       content = Map.empty, store = snapshot, listeners = [], triggered = [], deferred = 0 \<rparr>"

section \<open>The session's methods\<close>

text \<open>\<^verbatim>\<open>bindToAuthenticatorEvents\<close> (lines 274-285).\<close>

definition bindToAuthenticatorEvents :: "container \<Rightarrow> session \<Rightarrow> unit completion" where
  "bindToAuthenticatorEvents cont s =
     (case lookup cont (authenticatorFactory s) of
        None \<Rightarrow> Throws TypeError s
      | Some (name, a) \<Rightarrow>
          Returns ()
            (authenticator_on name SessionDataInvalidated
              (authenticator_on name SessionDataUpdated
                (authenticator_off name SessionDataInvalidated
                  (authenticator_off name SessionDataUpdated s)))))"

text \<open>
  \<^verbatim>\<open>setup(authenticatorFactory, content, trigger)\<close> (lines 234-249). The properties are
  assigned before the listeners are bound, so they stay assigned when the binding throws.
\<close>

definition setup_session :: "container \<Rightarrow> jsval \<Rightarrow> props \<Rightarrow> jsval \<Rightarrow> session \<Rightarrow> unit completion" where
  "setup_session cont factory c trig s =
     (let fire = (truthy trig \<and> \<not> isAuthenticated s);
          s1 = beginPropertyChanges s;
          s2 = s1\<lparr>isAuthenticated := True, authenticatorFactory := factory, content := c\<rparr>
      in case bindToAuthenticatorEvents cont s2 of
           Throws e s3 \<Rightarrow> Throws e s3
         | Returns u s3 \<Rightarrow>
             (let data = js_extend [''authenticatorFactory'' \<mapsto> factory] (content s3);
                  s4 = store_replace data s3;
                  s5 = endPropertyChanges s4
              in Returns () (if fire then trigger SessionAuthenticationSucceeded s5 else s5)))"

text \<open>\<^verbatim>\<open>clear(trigger)\<close> (lines 255-268).\<close>

definition clear :: "jsval \<Rightarrow> session \<Rightarrow> session" where
  "clear trig s =
     (let fire = (truthy trig \<and> isAuthenticated s);
          s1 = beginPropertyChanges s;
          s2 = s1\<lparr>isAuthenticated := False, authenticatorFactory := JNull, content := Map.empty\<rparr>;
          s3 = store_clear s2;
          s4 = endPropertyChanges s3
      in if fire then trigger SessionInvalidationSucceeded s4 else s4)"

text \<open>
  \<^verbatim>\<open>authenticate(authenticatorFactory, options)\<close> (lines 157-170), with its two callbacks.
  An exception in the success callback is swallowed by the promise machinery: the returned
  promise is then never settled.
\<close>

definition authenticate_resolved :: "container \<Rightarrow> jsval \<Rightarrow> props \<Rightarrow> session \<Rightarrow> promise completion" where
  "authenticate_resolved cont factory c s =
     (case setup_session cont factory c (JBool True) s of
        Returns u s' \<Rightarrow> Returns (Fulfilled JUndefined) s'
      | Throws e s' \<Rightarrow> Returns Pending s')"

definition authenticate_rejected :: "jsval \<Rightarrow> session \<Rightarrow> promise completion" where
  "authenticate_rejected err s =
     Returns (Rejected err) (trigger (SessionAuthenticationFailed err) (clear JUndefined s))"

definition authenticate :: "container \<Rightarrow> jsval \<Rightarrow> jsval \<Rightarrow> session \<Rightarrow> promise completion" where
  "authenticate cont factory options s =
     (if isEmpty factory then Throws AssertionFailed s
      else case lookup cont factory of
             None \<Rightarrow> Returns (RejectedWith TypeError) s
           | Some (name, a) \<Rightarrow>
               (case auth_authenticate a options of
                  Resolves c \<Rightarrow> authenticate_resolved cont factory c s
                | Rejects err \<Rightarrow> authenticate_rejected err s
                | Pends \<Rightarrow> Returns Pending s))"

text \<open>
  \<^verbatim>\<open>invalidate()\<close> (lines 190-203). The success callback holds the authenticator that was
  looked up when \<^verbatim>\<open>invalidate\<close> was called.
\<close>

definition invalidate_resolved :: "string \<Rightarrow> session \<Rightarrow> promise completion" where
  "invalidate_resolved name s =
     Returns (Fulfilled JUndefined) (clear (JBool True) (authenticator_off name SessionDataUpdated s))"

definition invalidate_rejected :: "jsval \<Rightarrow> session \<Rightarrow> promise completion" where
  "invalidate_rejected err s = Returns (Rejected err) (trigger (SessionInvalidationFailed err) s)"

definition invalidate :: "container \<Rightarrow> session \<Rightarrow> promise completion" where
  "invalidate cont s =
     (case lookup cont (authenticatorFactory s) of
        None \<Rightarrow> Returns (RejectedWith TypeError) s
      | Some (name, a) \<Rightarrow>
          (case auth_invalidate a (content s) of
             Resolves c \<Rightarrow> invalidate_resolved name s
           | Rejects err \<Rightarrow> invalidate_rejected err s
           | Pends \<Rightarrow> Returns Pending s))"

text \<open>
  \<^verbatim>\<open>restore()\<close> (lines 209-228). Both failure paths call \<^verbatim>\<open>reject()\<close> with no argument.
\<close>

definition restore_resolved :: "container \<Rightarrow> jsval \<Rightarrow> props \<Rightarrow> session \<Rightarrow> promise completion" where
  "restore_resolved cont factory c s =
     (case setup_session cont factory c JUndefined s of
        Returns u s' \<Rightarrow> Returns (Fulfilled JUndefined) s'
      | Throws e s' \<Rightarrow> Returns Pending s')"

definition restore_rejected :: "session \<Rightarrow> promise completion" where
  "restore_rejected s = Returns (Rejected JUndefined) (store_clear s)"

definition restore :: "container \<Rightarrow> session \<Rightarrow> promise completion" where
  "restore cont s =
     (let restoredContent = store_restore s;
          factory = js_get restoredContent ''authenticatorFactory''
      in if truthy factory then
           (let restoredContent' = js_delete restoredContent ''authenticatorFactory''
            in case lookup cont factory of
                 None \<Rightarrow> Returns (RejectedWith TypeError) s
               | Some (name, a) \<Rightarrow>
                   (case auth_restore a restoredContent' of
                      Resolves c \<Rightarrow> restore_resolved cont factory c s
                    | Rejects err \<Rightarrow> restore_rejected s
                    | Pends \<Rightarrow> Returns Pending s))
         else Returns (Rejected JUndefined) (store_clear s))"

text \<open>
  The handler \<^verbatim>\<open>bindToStoreEvents\<close> (lines 291-306) registers on the Store's
  \<^verbatim>\<open>sessionDataUpdated\<close> event, with the two callbacks of its \<^verbatim>\<open>restore\<close> call.
\<close>

definition store_restore_resolved :: "container \<Rightarrow> jsval \<Rightarrow> props \<Rightarrow> session \<Rightarrow> session" where
  "store_restore_resolved cont factory c s = state_of (setup_session cont factory c (JBool True) s)"

definition store_restore_rejected :: "session \<Rightarrow> session" where
  "store_restore_rejected s = clear (JBool True) s"

definition store_sessionDataUpdated :: "container \<Rightarrow> props \<Rightarrow> session \<Rightarrow> unit completion" where
  "store_sessionDataUpdated cont c s =
     (let factory = js_get c ''authenticatorFactory''
      in if truthy factory then
           (let c' = js_delete c ''authenticatorFactory''
            in case lookup cont factory of
                 None \<Rightarrow> Throws TypeError s
               | Some (name, a) \<Rightarrow>
                   (case auth_restore a c' of
                      Resolves c'' \<Rightarrow> Returns () (store_restore_resolved cont factory c'' s)
                    | Rejects err \<Rightarrow> Returns () (store_restore_rejected s)
                    | Pends \<Rightarrow> Returns () s))
         else Returns () (clear (JBool True) s))"

text \<open>
  An authenticator triggering one of its events runs the handlers registered on it, one
  after the other; a handler that throws ends the run. The handlers are those of
  \<^verbatim>\<open>bindToAuthenticatorEvents\<close>: on \<^verbatim>\<open>sessionDataUpdated\<close>,
  \<^verbatim>\<open>_this.setup(_this.authenticatorFactory, content)\<close> with the factory the session has
  when the event arrives; on \<^verbatim>\<open>sessionDataInvalidated\<close>, \<^verbatim>\<open>_this.clear(true)\<close>.
\<close>

fun run_handlers :: "(session \<Rightarrow> unit completion) \<Rightarrow> nat \<Rightarrow> session \<Rightarrow> unit completion" where
  "run_handlers h 0 s = Returns () s"
| "run_handlers h (Suc n) s =
     (case h s of
        Throws e s' \<Rightarrow> Throws e s'
      | Returns u s' \<Rightarrow> run_handlers h n s')"

definition authenticator_sessionDataUpdated :: "container \<Rightarrow> string \<Rightarrow> props \<Rightarrow> session \<Rightarrow> unit completion" where
  "authenticator_sessionDataUpdated cont name c s =
     run_handlers (\<lambda>s'. setup_session cont (authenticatorFactory s') c JUndefined s')
       (count_list (listeners s) (name, SessionDataUpdated)) s"

definition authenticator_sessionDataInvalidated :: "string \<Rightarrow> session \<Rightarrow> unit completion" where
  "authenticator_sessionDataInvalidated name s =
     run_handlers (\<lambda>s'. Returns () (clear (JBool True) s'))
       (count_list (listeners s) (name, SessionDataInvalidated)) s"

section \<open>Reachable states\<close>

text \<open>
  The states the session can be in: it starts as \<open>init\<close>, and every turn of the event loop
  runs one of the session's methods, one of their promise callbacks (which may run after
  other turns, with the factory or the authenticator they captured when the method was
  called, and only for a lookup that succeeded), or a handler of an event the Store or an
  authenticator pushes. The Store's snapshot can also be rewritten from outside (another
  tab).
\<close>

inductive reachable :: "container \<Rightarrow> session \<Rightarrow> bool" for cont :: container where
  r_init: "reachable cont (init snapshot)"
| r_authenticate:
    "reachable cont s \<Longrightarrow> reachable cont (state_of (authenticate cont factory options s))"
| r_authenticate_resolved:
    "reachable cont s \<Longrightarrow> lookup cont factory = Some (name, a) \<Longrightarrow>
       reachable cont (state_of (authenticate_resolved cont factory c s))"
| r_authenticate_rejected:
    "reachable cont s \<Longrightarrow> reachable cont (state_of (authenticate_rejected err s))"
| r_invalidate:
    "reachable cont s \<Longrightarrow> reachable cont (state_of (invalidate cont s))"
| r_invalidate_resolved:
    "reachable cont s \<Longrightarrow> cont name = Some a \<Longrightarrow>
       reachable cont (state_of (invalidate_resolved name s))"
| r_invalidate_rejected:
    "reachable cont s \<Longrightarrow> reachable cont (state_of (invalidate_rejected err s))"
| r_restore:
    "reachable cont s \<Longrightarrow> reachable cont (state_of (restore cont s))"
| r_restore_resolved:
    "reachable cont s \<Longrightarrow> lookup cont factory = Some (name, a) \<Longrightarrow>
       reachable cont (state_of (restore_resolved cont factory c s))"
| r_restore_rejected:
    "reachable cont s \<Longrightarrow> reachable cont (state_of (restore_rejected s))"
| r_store_sessionDataUpdated:
    "reachable cont s \<Longrightarrow> reachable cont (state_of (store_sessionDataUpdated cont c s))"
| r_store_restore_resolved:
    "reachable cont s \<Longrightarrow> lookup cont factory = Some (name, a) \<Longrightarrow>
       reachable cont (store_restore_resolved cont factory c s)"
| r_store_restore_rejected:
    "reachable cont s \<Longrightarrow> reachable cont (store_restore_rejected s)"
| r_authenticator_sessionDataUpdated:
    "reachable cont s \<Longrightarrow>
       reachable cont (state_of (authenticator_sessionDataUpdated cont name c s))"
| r_authenticator_sessionDataInvalidated:
    "reachable cont s \<Longrightarrow>
       reachable cont (state_of (authenticator_sessionDataInvalidated name s))"
| r_store_changed:
    "reachable cont s \<Longrightarrow> reachable cont (s\<lparr>store := snapshot\<rparr>)"

text \<open>The number of handlers of an event the session has live on an authenticator.\<close>

definition live_handlers :: "session \<Rightarrow> string \<Rightarrow> authenticator_event \<Rightarrow> nat" where
  "live_handlers s name ev = count_list (listeners s) (name, ev)"

text \<open>
  The Store agrees with the session: the snapshot is the content merged onto
  \<^verbatim>\<open>{authenticatorFactory}\<close> when the session is authenticated, and empty when it is not.
\<close>

definition store_in_sync :: "session \<Rightarrow> bool" where
  "store_in_sync s =
     (if isAuthenticated s
      then store s = js_extend [''authenticatorFactory'' \<mapsto> authenticatorFactory s] (content s)
      else store s = Map.empty)"

text \<open>
  One half of the documented relation between the two properties: a factory is set only
  when the session is authenticated.
\<close>

definition factory_implies_authenticated :: "session \<Rightarrow> bool" where
  "factory_implies_authenticated s = (authenticatorFactory s = JNull \<or> isAuthenticated s)"

section \<open>The scenarios of the specification\<close>

text \<open>
  An authenticator that accepts: \<^verbatim>\<open>authenticate\<close> resolves with \<^verbatim>\<open>{token: "xyz"}\<close>,
  \<^verbatim>\<open>restore\<close> with the data it is given and \<^verbatim>\<open>user: "u"\<close>, \<^verbatim>\<open>invalidate\<close> resolves. One
  that accepts but cancels every invalidation, and one that refuses: it rejects every call
  with \<^verbatim>\<open>{message: "bad credentials"}\<close>.
\<close>

definition accepting :: authenticator where
  "accepting =
     \<lparr> auth_authenticate = (\<lambda>options. Resolves [''token'' \<mapsto> JStr ''xyz'']),
       auth_restore = (\<lambda>data. Resolves (data(''user'' \<mapsto> JStr ''u''))),
       auth_invalidate = (\<lambda>data. Resolves Map.empty) \<rparr>"

definition retaining :: authenticator where
  "retaining = accepting\<lparr>auth_invalidate := (\<lambda>data. Rejects (JStr ''not now''))\<rparr>"

definition bad_credentials :: jsval where
  "bad_credentials = JObj [''message'' \<mapsto> JStr ''bad credentials'']"

definition refusing :: authenticator where
  "refusing =
     \<lparr> auth_authenticate = (\<lambda>options. Rejects bad_credentials),
       auth_restore = (\<lambda>data. Rejects bad_credentials),
       auth_invalidate = (\<lambda>data. Rejects bad_credentials) \<rparr>"

definition credentials :: jsval where
  "credentials = JObj [''user'' \<mapsto> JStr ''a'', ''pass'' \<mapsto> JStr ''b'']"

text \<open>
  A container with the accepting authenticator registered as \<^verbatim>\<open>password\<close> and
  \<^verbatim>\<open>token\<close>, the one that cancels invalidation as \<^verbatim>\<open>sticky\<close> and the refusing one as
  \<^verbatim>\<open>strict\<close>.
\<close>

definition registry :: container where
  "registry =
     [''password'' \<mapsto> accepting, ''token'' \<mapsto> accepting, ''sticky'' \<mapsto> retaining,
      ''strict'' \<mapsto> refusing]"

text \<open>The session after scenario A: authenticated with \<^verbatim>\<open>password\<close>.\<close>

definition logged_in :: session where
  "logged_in = state_of (authenticate registry (JStr ''password'') credentials (init Map.empty))"

text \<open>The same with the authenticator that cancels invalidation.\<close>

definition logged_in_sticky :: session where
  "logged_in_sticky = state_of (authenticate registry (JStr ''sticky'') credentials (init Map.empty))"

text \<open>The snapshot of scenario D, and one that names the refusing authenticator.\<close>

definition strict_snapshot :: props where
  "strict_snapshot = [''authenticatorFactory'' \<mapsto> JStr ''strict'', ''token'' \<mapsto> JStr ''abc'']"


definition token_snapshot :: props where
  "token_snapshot = [''authenticatorFactory'' \<mapsto> JStr ''token'', ''token'' \<mapsto> JStr ''abc'']"

section \<open>Basic facts\<close>

lemmas session_defs =
  clear_def Let_def trigger_def endPropertyChanges_def store_clear_def beginPropertyChanges_def
  store_replace_def store_restore_def authenticator_on_def authenticator_off_def

lemma js_extend_apply:
  "js_extend target options k =
     (case options k of None \<Rightarrow> target k | Some v \<Rightarrow> if v \<noteq> JUndefined then Some v else target k)"
  by (simp add: js_extend_def)

text \<open>
  Read property by property, the merge gives the value of \<open>options\<close> where it has one that
  is not \<^verbatim>\<open>undefined\<close>, and the value of \<open>target\<close> elsewhere.
\<close>

lemma js_get_js_extend:
  "js_get (js_extend target options) k =
     (if js_get options k \<noteq> JUndefined then js_get options k else js_get target k)"
  by (simp add: js_get_def js_extend_def split: option.splits)

lemma clear_isAuthenticated [simp]: "isAuthenticated (clear t s) = False"
  and clear_authenticatorFactory [simp]: "authenticatorFactory (clear t s) = JNull"
  and clear_content [simp]: "content (clear t s) = Map.empty"
  and clear_store [simp]: "store (clear t s) = Map.empty"
  and clear_listeners [simp]: "listeners (clear t s) = listeners s"
  and clear_deferred [simp]: "deferred (clear t s) = deferred s"
  and clear_attemptedTransition [simp]: "attemptedTransition (clear t s) = attemptedTransition s"
  and clear_triggered: "triggered (clear t s) =
        triggered s @ (if truthy t \<and> isAuthenticated s then [SessionInvalidationSucceeded] else [])"
  by (simp_all add: session_defs)

text \<open>
  What \<open>setup_session\<close> does, in one step: it returns exactly when the container resolves
  the factory, and throws a \<^verbatim>\<open>TypeError\<close> otherwise, with the three properties already
  assigned and the property changes still open.
\<close>

lemma setup_returns:
  "setup_session cont f c t s = Returns u s' \<longleftrightarrow>
     (\<exists>name a. lookup cont f = Some (name, a) \<and>
        s' = s\<lparr>isAuthenticated := True, authenticatorFactory := f, content := c,
               store := js_extend [''authenticatorFactory'' \<mapsto> f] c,
               listeners :=
                 filter (\<lambda>l. l \<noteq> (name, SessionDataInvalidated))
                   (filter (\<lambda>l. l \<noteq> (name, SessionDataUpdated)) (listeners s))
                 @ [(name, SessionDataUpdated), (name, SessionDataInvalidated)],
               triggered :=
                 triggered s @
                 (if truthy t \<and> \<not> isAuthenticated s then [SessionAuthenticationSucceeded] else [])\<rparr>)"
  by (auto simp add: setup_session_def bindToAuthenticatorEvents_def session_defs split: option.splits)

lemma setup_throws:
  "setup_session cont f c t s = Throws e s' \<longleftrightarrow>
     (lookup cont f = None \<and> e = TypeError \<and>
        s' = s\<lparr>isAuthenticated := True, authenticatorFactory := f, content := c,
               deferred := deferred s + 1\<rparr>)"
  by (auto simp add: setup_session_def bindToAuthenticatorEvents_def session_defs split: option.splits)

lemma state_of_authenticate_resolved:
  "state_of (authenticate_resolved cont f c s) = state_of (setup_session cont f c (JBool True) s)"
  by (simp add: authenticate_resolved_def split: completion.splits)

lemma state_of_restore_resolved:
  "state_of (restore_resolved cont f c s) = state_of (setup_session cont f c JUndefined s)"
  by (simp add: restore_resolved_def split: completion.splits)

lemma authenticate_fulfilled:
  "authenticate cont factory options s = Returns (Fulfilled v) s' \<Longrightarrow>
     \<exists>c. setup_session cont factory c (JBool True) s = Returns () s'"
  by (auto simp add: authenticate_def authenticate_resolved_def authenticate_rejected_def
        split: if_splits option.splits settlement.splits completion.splits)

lemma invalidate_fulfilled:
  "invalidate cont s = Returns (Fulfilled v) s' \<Longrightarrow>
     \<exists>name. s' = clear (JBool True) (authenticator_off name SessionDataUpdated s)"
  by (auto simp add: invalidate_def invalidate_resolved_def invalidate_rejected_def
        split: option.splits settlement.splits)

subsection \<open>The scenarios, evaluated\<close>

lemma lookup_registry [simp]:
  "lookup registry (JStr ''password'') = Some (''password'', accepting)"
  "lookup registry (JStr ''token'') = Some (''token'', accepting)"
  "lookup registry (JStr ''strict'') = Some (''strict'', refusing)"
  "lookup registry (JStr ''sticky'') = Some (''sticky'', retaining)"
  "lookup registry JNull = None"
  by (simp_all add: lookup_def registry_def)

lemma logged_in_eq:
  "logged_in =
     \<lparr> authenticatorFactory = JStr ''password'', isAuthenticated = True, attemptedTransition = JNull,
       content = [''token'' \<mapsto> JStr ''xyz''],
       store = js_extend [''authenticatorFactory'' \<mapsto> JStr ''password''] [''token'' \<mapsto> JStr ''xyz''],
       listeners = [(''password'', SessionDataUpdated), (''password'', SessionDataInvalidated)],
       triggered = [SessionAuthenticationSucceeded], deferred = 0 \<rparr>"
  by (simp add: logged_in_def authenticate_def authenticate_resolved_def accepting_def init_def
        setup_session_def bindToAuthenticatorEvents_def session_defs)

lemma logged_in_sticky_eq:
  "logged_in_sticky =
     \<lparr> authenticatorFactory = JStr ''sticky'', isAuthenticated = True, attemptedTransition = JNull,
       content = [''token'' \<mapsto> JStr ''xyz''],
       store = js_extend [''authenticatorFactory'' \<mapsto> JStr ''sticky''] [''token'' \<mapsto> JStr ''xyz''],
       listeners = [(''sticky'', SessionDataUpdated), (''sticky'', SessionDataInvalidated)],
       triggered = [SessionAuthenticationSucceeded], deferred = 0 \<rparr>"
  by (simp add: logged_in_sticky_def authenticate_def authenticate_resolved_def accepting_def
        retaining_def init_def setup_session_def bindToAuthenticatorEvents_def session_defs)

lemma setup_logged_in:
  "setup_session registry (JStr ''password'') [''token'' \<mapsto> JStr ''xyz''] (JBool True) (init Map.empty)
     = Returns () logged_in"
  by (simp add: logged_in_def authenticate_def authenticate_resolved_def accepting_def
        setup_session_def bindToAuthenticatorEvents_def Let_def)

lemma authenticate_logged_in:
  "authenticate registry (JStr ''password'') credentials (init Map.empty)
     = Returns (Fulfilled JUndefined) logged_in"
  by (simp add: logged_in_def authenticate_def authenticate_resolved_def accepting_def
        setup_session_def bindToAuthenticatorEvents_def Let_def)

lemma invalidate_logged_in:
  "invalidate registry logged_in
     = Returns (Fulfilled JUndefined) (state_of (invalidate registry logged_in))"
  by (simp add: invalidate_def invalidate_resolved_def logged_in_eq accepting_def)

lemma reachable_logged_in: "reachable registry logged_in"
  unfolding logged_in_def by (intro r_authenticate r_init)

subsection \<open>Handlers never accumulate\<close>

lemma count_list_distinct: "distinct xs \<Longrightarrow> count_list xs x \<le> 1"
  by (induction xs) (auto simp add: count_list_0_iff)

lemma count_list_filter_other:
  "x \<noteq> y \<Longrightarrow> count_list (filter (\<lambda>l. l \<noteq> y) xs) x = count_list xs x"
  by (induction xs) auto

lemma setup_distinct:
  assumes "distinct (listeners s)"
  shows "distinct (listeners (state_of (setup_session cont f c t s)))"
proof (cases "setup_session cont f c t s")
  case (Returns u s')
  then have "distinct (listeners s')"
    using assms by (auto simp add: setup_returns)
  with Returns show ?thesis by simp
next
  case (Throws e s')
  then have "listeners s' = listeners s"
    by (simp add: setup_throws)
  with Throws assms show ?thesis by simp
qed

lemma run_handlers_invariant:
  assumes h: "\<And>s. P s \<Longrightarrow> P (state_of (h s))"
  shows "P s \<Longrightarrow> P (state_of (run_handlers h n s))"
proof (induction n arbitrary: s)
  case 0
  then show ?case by simp
next
  case (Suc n)
  show ?case
  proof (cases "h s")
    case (Returns u s')
    with h [OF Suc.prems] have "P s'" by simp
    with Returns Suc.IH show ?thesis by simp
  next
    case (Throws e s')
    with h [OF Suc.prems] show ?thesis by simp
  qed
qed

lemma authenticate_distinct:
  "distinct (listeners s) \<Longrightarrow> distinct (listeners (state_of (authenticate cont f opts s)))"
  by (auto simp add: authenticate_def state_of_authenticate_resolved setup_distinct
        authenticate_rejected_def trigger_def split: option.splits settlement.splits)

lemma invalidate_distinct:
  "distinct (listeners s) \<Longrightarrow> distinct (listeners (state_of (invalidate cont s)))"
  by (auto simp add: invalidate_def invalidate_resolved_def invalidate_rejected_def trigger_def
        authenticator_off_def split: option.splits settlement.splits)

lemma restore_distinct:
  "distinct (listeners s) \<Longrightarrow> distinct (listeners (state_of (restore cont s)))"
  by (auto simp add: restore_def state_of_restore_resolved setup_distinct restore_rejected_def
        store_clear_def Let_def split: option.splits settlement.splits)

lemma store_event_distinct:
  "distinct (listeners s) \<Longrightarrow> distinct (listeners (state_of (store_sessionDataUpdated cont c s)))"
  by (auto simp add: store_sessionDataUpdated_def store_restore_resolved_def setup_distinct
        store_restore_rejected_def Let_def split: option.splits settlement.splits)

lemma reachable_distinct: "reachable cont s \<Longrightarrow> distinct (listeners s)"
proof (induction rule: reachable.induct)
  case (r_init snapshot)
  show ?case by (simp add: init_def)
next
  case (r_authenticate s factory options)
  then show ?case by (simp add: authenticate_distinct)
next
  case (r_authenticate_resolved s factory name a c)
  then show ?case by (simp add: state_of_authenticate_resolved setup_distinct)
next
  case (r_authenticate_rejected s err)
  then show ?case by (simp add: authenticate_rejected_def trigger_def)
next
  case (r_invalidate s)
  then show ?case by (simp add: invalidate_distinct)
next
  case (r_invalidate_resolved s name a)
  then show ?case by (simp add: invalidate_resolved_def authenticator_off_def)
next
  case (r_invalidate_rejected s err)
  then show ?case by (simp add: invalidate_rejected_def trigger_def)
next
  case (r_restore s)
  then show ?case by (simp add: restore_distinct)
next
  case (r_restore_resolved s factory name a c)
  then show ?case by (simp add: state_of_restore_resolved setup_distinct)
next
  case (r_restore_rejected s)
  then show ?case by (simp add: restore_rejected_def store_clear_def)
next
  case (r_store_sessionDataUpdated s c)
  then show ?case by (simp add: store_event_distinct)
next
  case (r_store_restore_resolved s factory name a c)
  then show ?case by (simp add: store_restore_resolved_def setup_distinct)
next
  case (r_store_restore_rejected s)
  then show ?case by (simp add: store_restore_rejected_def)
next
  case (r_authenticator_sessionDataUpdated s name c)
  then show ?case
    unfolding authenticator_sessionDataUpdated_def
    by (intro run_handlers_invariant [where P = "\<lambda>s. distinct (listeners s)"] setup_distinct)
next
  case (r_authenticator_sessionDataInvalidated s name)
  then show ?case
    unfolding authenticator_sessionDataInvalidated_def
    by (intro run_handlers_invariant [where P = "\<lambda>s. distinct (listeners s)"]) simp_all
next
  case (r_store_changed s snapshot)
  then show ?case by simp
qed

subsection \<open>A factory is set only when authenticated\<close>

lemma setup_isAuthenticated: "isAuthenticated (state_of (setup_session cont f c t s))"
  by (simp add: setup_session_def bindToAuthenticatorEvents_def session_defs split: option.splits)

lemma setup_fia: "factory_implies_authenticated (state_of (setup_session cont f c t s))"
  by (simp add: factory_implies_authenticated_def setup_isAuthenticated)

lemma clear_fia: "factory_implies_authenticated (clear t s)"
  by (simp add: factory_implies_authenticated_def)

lemma fia_unchanged:
  "factory_implies_authenticated (trigger ev s) = factory_implies_authenticated s"
  "factory_implies_authenticated (store_clear s) = factory_implies_authenticated s"
  "factory_implies_authenticated (s\<lparr>store := snapshot\<rparr>) = factory_implies_authenticated s"
  "factory_implies_authenticated (authenticator_off name aev s) = factory_implies_authenticated s"
  by (simp_all add: factory_implies_authenticated_def session_defs)

lemma reachable_factory_implies_authenticated:
  "reachable cont s \<Longrightarrow> factory_implies_authenticated s"
proof (induction rule: reachable.induct)
  case (r_init snapshot)
  show ?case by (simp add: init_def factory_implies_authenticated_def)
next
  case (r_authenticate s factory options)
  then show ?case
    by (auto simp add: authenticate_def state_of_authenticate_resolved setup_fia clear_fia
        authenticate_rejected_def fia_unchanged split: option.splits settlement.splits)
next
  case (r_authenticate_resolved s factory name a c)
  then show ?case by (simp add: state_of_authenticate_resolved setup_fia)
next
  case (r_authenticate_rejected s err)
  then show ?case by (simp add: authenticate_rejected_def fia_unchanged clear_fia)
next
  case (r_invalidate s)
  then show ?case
    by (auto simp add: invalidate_def invalidate_resolved_def invalidate_rejected_def
        fia_unchanged clear_fia split: option.splits settlement.splits)
next
  case (r_invalidate_resolved s name a)
  then show ?case by (simp add: invalidate_resolved_def clear_fia)
next
  case (r_invalidate_rejected s err)
  then show ?case by (simp add: invalidate_rejected_def fia_unchanged)
next
  case (r_restore s)
  then show ?case
    by (auto simp add: restore_def state_of_restore_resolved setup_fia restore_rejected_def
        fia_unchanged Let_def split: option.splits settlement.splits)
next
  case (r_restore_resolved s factory name a c)
  then show ?case by (simp add: state_of_restore_resolved setup_fia)
next
  case (r_restore_rejected s)
  then show ?case by (simp add: restore_rejected_def fia_unchanged)
next
  case (r_store_sessionDataUpdated s c)
  then show ?case
    by (auto simp add: store_sessionDataUpdated_def store_restore_resolved_def setup_fia clear_fia
        store_restore_rejected_def Let_def split: option.splits settlement.splits)
next
  case (r_store_restore_resolved s factory name a c)
  then show ?case by (simp add: store_restore_resolved_def setup_fia)
next
  case (r_store_restore_rejected s)
  then show ?case by (simp add: store_restore_rejected_def clear_fia)
next
  case (r_authenticator_sessionDataUpdated s name c)
  then show ?case
    unfolding authenticator_sessionDataUpdated_def
    by (intro run_handlers_invariant [where P = factory_implies_authenticated] setup_fia)
next
  case (r_authenticator_sessionDataInvalidated s name)
  then show ?case
    unfolding authenticator_sessionDataInvalidated_def
    by (intro run_handlers_invariant [where P = factory_implies_authenticated])
      (simp_all add: clear_fia)
next
  case (r_store_changed s snapshot)
  then show ?case by (simp add: fia_unchanged)
qed

text \<open>
  Right after a \<^verbatim>\<open>setup\<close> that returns the session is authenticated with a factory, and
  right after \<^verbatim>\<open>clear\<close> it is neither.
\<close>

lemma setup_returns_both:
  "setup_session cont f c t s = Returns u s' \<Longrightarrow>
     isAuthenticated s' \<and> authenticatorFactory s' \<noteq> JNull"
  by (auto simp add: setup_returns lookup_def split: jsval.splits)

lemma clear_neither:
  "\<not> isAuthenticated (clear t s) \<and> authenticatorFactory (clear t s) = JNull"
  by simp

subsection \<open>The Store after a completed transition\<close>

lemma setup_in_sync:
  "setup_session cont factory c trig s = Returns u s' \<Longrightarrow> store_in_sync s'"
  by (auto simp add: setup_returns store_in_sync_def)

section \<open>The claims\<close>

subsection \<open>C1: authenticated exactly when a factory is set\<close>

text \<open>
  C1 says that in every reachable state \<open>isAuthenticated\<close> holds if and only if
  \<open>authenticatorFactory\<close> is not \<^verbatim>\<open>null\<close>. The code has a reachable state where it does
  not. The session is authenticated with \<^verbatim>\<open>password\<close>; the Store pushes
  \<^verbatim>\<open>sessionDataUpdated({})\<close>, so the session is cleared, by \<^verbatim>\<open>clear(true)\<close>, which leaves the
  handlers on the authenticator in place (only \<^verbatim>\<open>invalidate\<close> removes one); the
  authenticator then pushes \<^verbatim>\<open>sessionDataUpdated({token: "new"})\<close>, and the handler calls
  \<^verbatim>\<open>setup(null, content)\<close>, which assigns \<^verbatim>\<open>isAuthenticated = true\<close> and
  \<^verbatim>\<open>authenticatorFactory = null\<close> before the lookup of \<^verbatim>\<open>null\<close> throws. The theorem
  evaluates the code on that sequence.
\<close>

theorem stale_handler_after_store_clear:
  "\<not> isAuthenticated (state_of (store_sessionDataUpdated registry Map.empty logged_in)) \<and>
   isAuthenticated
     (state_of (authenticator_sessionDataUpdated registry ''password'' [''token'' \<mapsto> JStr ''new'']
        (state_of (store_sessionDataUpdated registry Map.empty logged_in)))) \<and>
   authenticatorFactory
     (state_of (authenticator_sessionDataUpdated registry ''password'' [''token'' \<mapsto> JStr ''new'']
        (state_of (store_sessionDataUpdated registry Map.empty logged_in)))) = JNull"
  by (simp add: store_sessionDataUpdated_def authenticator_sessionDataUpdated_def js_get_def
        logged_in_eq setup_session_def bindToAuthenticatorEvents_def session_defs)

text \<open>
  The state is one of the reachable states. The other half of the relation does hold in
  all of them (\<open>reachable_factory_implies_authenticated\<close>), and both halves hold right
  after a \<^verbatim>\<open>setup\<close> that returns and right after \<^verbatim>\<open>clear\<close> (\<open>setup_returns_both\<close>,
  \<open>clear_neither\<close>).
\<close>

lemma stale_handler_state_reachable:
  "reachable registry
     (state_of (authenticator_sessionDataUpdated registry ''password'' [''token'' \<mapsto> JStr ''new'']
        (state_of (store_sessionDataUpdated registry Map.empty logged_in))))"
  by (intro r_authenticator_sessionDataUpdated r_store_sessionDataUpdated reachable_logged_in)

subsection \<open>C2: the Store follows the session\<close>

text \<open>
  C2: immediately after every completed \<^verbatim>\<open>setup\<close> or \<^verbatim>\<open>clear\<close>, and so after every
  successful \<^verbatim>\<open>authenticate\<close> or \<^verbatim>\<open>invalidate\<close>, the Store's snapshot is the content merged
  with \<^verbatim>\<open>{authenticatorFactory}\<close> when the session is authenticated, and empty when it is not.
  A completed \<^verbatim>\<open>setup\<close> is one that returns; a successful \<^verbatim>\<open>authenticate\<close> or \<^verbatim>\<open>invalidate\<close>
  is one whose promise is fulfilled.
\<close>

theorem store_in_sync_after_transition:
  "(setup_session cont factory c trig s = Returns () s1 \<longrightarrow> store_in_sync s1) \<and>
   store_in_sync (clear trig s) \<and>
   (authenticate cont factory options s = Returns (Fulfilled v) s2 \<longrightarrow> store_in_sync s2) \<and>
   (invalidate cont s = Returns (Fulfilled v') s3 \<longrightarrow> store_in_sync s3)"
proof (intro conjI impI)
  assume "setup_session cont factory c trig s = Returns () s1"
  then show "store_in_sync s1" by (rule setup_in_sync)
next
  show "store_in_sync (clear trig s)" by (simp add: store_in_sync_def)
next
  assume "authenticate cont factory options s = Returns (Fulfilled v) s2"
  then show "store_in_sync s2" by (blast dest: authenticate_fulfilled setup_in_sync)
next
  assume "invalidate cont s = Returns (Fulfilled v') s3"
  then show "store_in_sync s3" by (auto dest!: invalidate_fulfilled simp add: store_in_sync_def)
qed

text \<open>
  Scenario A: after \<^verbatim>\<open>authenticate("password", {user: "a", pass: "b"})\<close> the Store holds
  \<^verbatim>\<open>{authenticatorFactory: "password", token: "xyz"}\<close>; after the invalidation that follows
  it is empty.
\<close>

theorem store_in_sync_after_transition_witness:
  "setup_session registry (JStr ''password'') [''token'' \<mapsto> JStr ''xyz''] (JBool True) (init Map.empty)
     = Returns () logged_in \<and>
   store logged_in = [''authenticatorFactory'' \<mapsto> JStr ''password'', ''token'' \<mapsto> JStr ''xyz''] \<and>
   store_in_sync logged_in \<and>
   store_in_sync (clear (JBool True) logged_in) \<and>
   authenticate registry (JStr ''password'') credentials (init Map.empty)
     = Returns (Fulfilled JUndefined) logged_in \<and>
   invalidate registry logged_in
     = Returns (Fulfilled JUndefined) (state_of (invalidate registry logged_in)) \<and>
   store_in_sync (state_of (invalidate registry logged_in))"
proof -
  have d: "store logged_in = [''authenticatorFactory'' \<mapsto> JStr ''password'', ''token'' \<mapsto> JStr ''xyz'']"
    by (auto simp add: logged_in_eq js_extend_apply)
  from store_in_sync_after_transition [where cont = registry and factory = "JStr ''password''"
        and c = "[''token'' \<mapsto> JStr ''xyz'']" and trig = "JBool True" and s = "init Map.empty"
        and ?s1.0 = logged_in and options = credentials and v = JUndefined and ?s2.0 = logged_in]
    store_in_sync_after_transition [where cont = registry and trig = "JBool True" and s = logged_in
        and v' = JUndefined and ?s3.0 = "state_of (invalidate registry logged_in)"]
  show ?thesis using setup_logged_in authenticate_logged_in invalidate_logged_in d by simp
qed

subsection \<open>C3: the subscriptions on an authenticator\<close>

text \<open>
  C3 says that a successful \<^verbatim>\<open>invalidate()\<close> has torn down both the
  \<^verbatim>\<open>sessionDataUpdated\<close> and the \<^verbatim>\<open>sessionDataInvalidated\<close> subscription, so that no handler
  remains bound. The code calls \<^verbatim>\<open>authenticator.off('sessionDataUpdated')\<close> only: after
  scenario C the \<^verbatim>\<open>sessionDataInvalidated\<close> handler is still live on the authenticator.
\<close>

theorem invalidate_teardown_counterexample:
  "value_of (invalidate registry logged_in) = Some (Fulfilled JUndefined) \<and>
   live_handlers (state_of (invalidate registry logged_in)) ''password'' SessionDataUpdated = 0 \<and>
   live_handlers (state_of (invalidate registry logged_in)) ''password'' SessionDataInvalidated = 1"
  by (simp add: invalidate_def invalidate_resolved_def logged_in_eq accepting_def live_handlers_def
        authenticator_off_def)

text \<open>
  C3 as amended: in every reachable state an authenticator carries at most one handler of
  each of the two events; a completed \<^verbatim>\<open>setup\<close> leaves exactly one of each on the
  authenticator it binds; and when \<^verbatim>\<open>invalidate()\<close> completes successfully, the
  \<^verbatim>\<open>sessionDataUpdated\<close> subscription on the previously bound authenticator has been torn
  down, while its \<^verbatim>\<open>sessionDataInvalidated\<close> subscription is as it was.
\<close>

theorem authenticator_subscriptions:
  "(reachable cont s \<longrightarrow> live_handlers s name ev \<le> 1) \<and>
   (setup_session cont factory c trig s = Returns () s1 \<and> lookup cont factory = Some (name, a) \<longrightarrow>
      live_handlers s1 name SessionDataUpdated = 1 \<and>
      live_handlers s1 name SessionDataInvalidated = 1) \<and>
   (invalidate cont s = Returns (Fulfilled v) s2 \<and>
    lookup cont (authenticatorFactory s) = Some (name, a) \<longrightarrow>
      live_handlers s2 name SessionDataUpdated = 0 \<and>
      live_handlers s2 name SessionDataInvalidated = live_handlers s name SessionDataInvalidated)"
proof (intro conjI impI)
  assume "reachable cont s"
  then show "live_handlers s name ev \<le> 1"
    unfolding live_handlers_def by (intro count_list_distinct reachable_distinct)
next
  assume a: "setup_session cont factory c trig s = Returns () s1 \<and> lookup cont factory = Some (name, a)"
  then show "live_handlers s1 name SessionDataUpdated = 1"
    by (auto simp add: setup_returns live_handlers_def count_list_0_iff)
  from a show "live_handlers s1 name SessionDataInvalidated = 1"
    by (auto simp add: setup_returns live_handlers_def count_list_0_iff)
next
  assume a: "invalidate cont s = Returns (Fulfilled v) s2 \<and>
    lookup cont (authenticatorFactory s) = Some (name, a)"
  then have s2: "s2 = clear (JBool True) (authenticator_off name SessionDataUpdated s)"
    by (auto simp add: invalidate_def invalidate_resolved_def invalidate_rejected_def
          split: settlement.splits)
  show "live_handlers s2 name SessionDataUpdated = 0"
    by (simp add: s2 live_handlers_def authenticator_off_def count_list_0_iff)
  show "live_handlers s2 name SessionDataInvalidated = live_handlers s name SessionDataInvalidated"
    by (simp add: s2 live_handlers_def authenticator_off_def count_list_filter_other)
qed

theorem authenticator_subscriptions_witness:
  "reachable registry logged_in \<and>
   live_handlers logged_in ''password'' SessionDataUpdated = 1 \<and>
   live_handlers logged_in ''password'' SessionDataInvalidated = 1 \<and>
   setup_session registry (JStr ''password'') [''token'' \<mapsto> JStr ''xyz''] (JBool True) (init Map.empty)
     = Returns () logged_in \<and>
   lookup registry (JStr ''password'') = Some (''password'', accepting) \<and>
   invalidate registry logged_in
     = Returns (Fulfilled JUndefined) (state_of (invalidate registry logged_in)) \<and>
   lookup registry (authenticatorFactory logged_in) = Some (''password'', accepting) \<and>
   live_handlers (state_of (invalidate registry logged_in)) ''password'' SessionDataUpdated = 0 \<and>
   live_handlers (state_of (invalidate registry logged_in)) ''password'' SessionDataInvalidated = 1"
proof -
  have f: "authenticatorFactory logged_in = JStr ''password''"
    by (simp add: logged_in_eq)
  from authenticator_subscriptions [where cont = registry and s = "init Map.empty"
        and factory = "JStr ''password''" and c = "[''token'' \<mapsto> JStr ''xyz'']"
        and trig = "JBool True" and ?s1.0 = logged_in and name = "''password''" and a = accepting]
    authenticator_subscriptions [where cont = registry and s = logged_in and v = JUndefined
        and ?s2.0 = "state_of (invalidate registry logged_in)" and name = "''password''"
        and a = accepting and ev = SessionDataInvalidated]
  show ?thesis
    using setup_logged_in invalidate_logged_in reachable_logged_in f by simp
qed

subsection \<open>C4: a rejected authentication\<close>

text \<open>
  C4: when the authenticator's \<^verbatim>\<open>authenticate\<close> rejects with an error, the session ends
  unauthenticated with empty content, the Store is cleared, \<^verbatim>\<open>sessionAuthenticationFailed\<close>
  is triggered with the error (and nothing else is triggered), and the returned promise
  rejects with that same error.
\<close>

theorem authenticate_failure:
  assumes "\<not> isEmpty factory"
    and "lookup cont factory = Some (name, a)"
    and "auth_authenticate a options = Rejects err"
  shows "\<exists>s'. authenticate cont factory options s = Returns (Rejected err) s' \<and>
           \<not> isAuthenticated s' \<and> authenticatorFactory s' = JNull \<and> content s' = Map.empty \<and>
           store s' = Map.empty \<and>
           triggered s' = triggered s @ [SessionAuthenticationFailed err]"
  using assms by (simp add: authenticate_def authenticate_rejected_def session_defs)

text \<open>Scenario B, from a session that was authenticated before.\<close>

theorem authenticate_failure_witness:
  "\<exists>s'. authenticate registry (JStr ''strict'') credentials logged_in
            = Returns (Rejected bad_credentials) s' \<and>
         \<not> isAuthenticated s' \<and> authenticatorFactory s' = JNull \<and> content s' = Map.empty \<and>
         store s' = Map.empty \<and>
         triggered s' = triggered logged_in @ [SessionAuthenticationFailed bad_credentials]"
  using authenticate_failure [of "JStr ''strict''" registry "''strict''" refusing credentials
      bad_credentials logged_in]
  by (simp add: refusing_def)

subsection \<open>C5: a rejected invalidation\<close>

text \<open>
  C5: when \<^verbatim>\<open>invalidate()\<close> is called on an authenticated session and the authenticator's
  \<^verbatim>\<open>invalidate\<close> rejects with an error, the returned promise rejects with that error and
  the session is as before but for the trace, which gains \<^verbatim>\<open>sessionInvalidationFailed\<close>
  with the error: the factory, the content, the Store and the listeners are untouched.
\<close>

theorem invalidate_failure:
  assumes "isAuthenticated s"
    and "lookup cont (authenticatorFactory s) = Some (name, a)"
    and "auth_invalidate a (content s) = Rejects err"
  shows "invalidate cont s =
           Returns (Rejected err) (s\<lparr>triggered := triggered s @ [SessionInvalidationFailed err]\<rparr>)"
  using assms by (simp add: invalidate_def invalidate_rejected_def trigger_def)

theorem invalidate_failure_witness:
  "isAuthenticated logged_in_sticky \<and>
   invalidate registry logged_in_sticky =
     Returns (Rejected (JStr ''not now''))
       (logged_in_sticky\<lparr>triggered :=
          [SessionAuthenticationSucceeded, SessionInvalidationFailed (JStr ''not now'')]\<rparr>)"
  using invalidate_failure [of logged_in_sticky registry "''sticky''" retaining "JStr ''not now''"]
  by (simp add: logged_in_sticky_eq retaining_def)

subsection \<open>C6: a rejected restore\<close>

text \<open>
  C6 says that when the authenticator's \<^verbatim>\<open>restore\<close> rejects with a payload, the promise
  \<^verbatim>\<open>restore()\<close> returns rejects with exactly that payload. The rejection callback of the
  code takes no argument and calls \<^verbatim>\<open>reject()\<close>: the authenticator rejects with
  \<^verbatim>\<open>{message: "bad credentials"}\<close> and the session's promise rejects with \<^verbatim>\<open>undefined\<close>.
\<close>

theorem restore_failure_counterexample:
  "auth_restore refusing (js_delete strict_snapshot ''authenticatorFactory'') = Rejects bad_credentials \<and>
   value_of (restore registry (init strict_snapshot)) = Some (Rejected JUndefined) \<and>
   bad_credentials \<noteq> JUndefined"
  by (simp add: restore_def restore_rejected_def store_restore_def js_get_def init_def
        strict_snapshot_def refusing_def bad_credentials_def)

text \<open>
  C6 as amended: when the Store's snapshot carries an \<^verbatim>\<open>authenticatorFactory\<close> and the
  authenticator's \<^verbatim>\<open>restore\<close> rejects with a payload, the returned promise rejects with no
  payload (\<^verbatim>\<open>undefined\<close>), the Store is cleared, and nothing else of the session changes.
\<close>

theorem restore_failure:
  assumes "js_get (store s) ''authenticatorFactory'' = factory"
    and "truthy factory"
    and "lookup cont factory = Some (name, a)"
    and "auth_restore a (js_delete (store s) ''authenticatorFactory'') = Rejects err"
  shows "restore cont s = Returns (Rejected JUndefined) (s\<lparr>store := Map.empty\<rparr>)"
  using assms by (simp add: restore_def restore_rejected_def store_restore_def store_clear_def)

theorem restore_failure_witness:
  "restore registry (init strict_snapshot) = Returns (Rejected JUndefined) (init Map.empty)"
  using restore_failure [of "init strict_snapshot" "JStr ''strict''" registry "''strict''" refusing
      bad_credentials]
  by (simp add: js_get_def init_def strict_snapshot_def refusing_def)

subsection \<open>C7: the success event fires on the edge\<close>

text \<open>
  C7: \<^verbatim>\<open>setup\<close> triggers \<^verbatim>\<open>sessionAuthenticationSucceeded\<close> if and only if its trigger
  argument is truthy and the session was not authenticated before the call; a successful
  \<^verbatim>\<open>authenticate\<close> on a session that is already authenticated triggers nothing. The first
  part is about a \<^verbatim>\<open>setup\<close> that returns, which is every call the source makes with a
  truthy trigger (each follows a successful lookup of the same factory); a \<^verbatim>\<open>setup\<close> that
  throws triggers nothing.
\<close>

theorem setup_fires_on_edge:
  "(setup_session cont factory c trig s = Returns () s1 \<longrightarrow>
      triggered s1 =
        triggered s @
        (if truthy trig \<and> \<not> isAuthenticated s then [SessionAuthenticationSucceeded] else [])) \<and>
   (setup_session cont factory c trig s = Throws e s2 \<longrightarrow> triggered s2 = triggered s) \<and>
   (isAuthenticated s \<and> authenticate cont factory options s = Returns (Fulfilled v) s3 \<longrightarrow>
      triggered s3 = triggered s)"
proof (intro conjI impI)
  assume "setup_session cont factory c trig s = Returns () s1"
  then show "triggered s1 =
        triggered s @
        (if truthy trig \<and> \<not> isAuthenticated s then [SessionAuthenticationSucceeded] else [])"
    by (auto simp add: setup_returns)
next
  assume "setup_session cont factory c trig s = Throws e s2"
  then show "triggered s2 = triggered s"
    by (simp add: setup_throws)
next
  assume a: "isAuthenticated s \<and> authenticate cont factory options s = Returns (Fulfilled v) s3"
  then obtain c' where "setup_session cont factory c' (JBool True) s = Returns () s3"
    by (blast dest: authenticate_fulfilled)
  with a show "triggered s3 = triggered s"
    by (auto simp add: setup_returns)
qed

text \<open>
  Scenario A fires the event once; re-authenticating with \<^verbatim>\<open>token\<close> while authenticated
  with \<^verbatim>\<open>password\<close> fires nothing more.
\<close>

theorem setup_fires_on_edge_witness:
  "setup_session registry (JStr ''password'') [''token'' \<mapsto> JStr ''xyz''] (JBool True) (init Map.empty)
     = Returns () logged_in \<and>
   triggered logged_in = [SessionAuthenticationSucceeded] \<and>
   setup_session registry JNull Map.empty (JBool True) (init Map.empty)
     = Throws TypeError (state_of (setup_session registry JNull Map.empty (JBool True) (init Map.empty))) \<and>
   triggered (state_of (setup_session registry JNull Map.empty (JBool True) (init Map.empty))) = [] \<and>
   isAuthenticated logged_in \<and>
   authenticate registry (JStr ''token'') credentials logged_in
     = Returns (Fulfilled JUndefined) (state_of (authenticate registry (JStr ''token'') credentials logged_in)) \<and>
   triggered (state_of (authenticate registry (JStr ''token'') credentials logged_in))
     = [SessionAuthenticationSucceeded]"
proof -
  have b: "setup_session registry JNull Map.empty (JBool True) (init Map.empty)
     = Throws TypeError (state_of (setup_session registry JNull Map.empty (JBool True) (init Map.empty)))"
    by (simp add: setup_session_def bindToAuthenticatorEvents_def Let_def beginPropertyChanges_def)
  have c: "authenticate registry (JStr ''token'') credentials logged_in
     = Returns (Fulfilled JUndefined) (state_of (authenticate registry (JStr ''token'') credentials logged_in))"
    by (simp add: authenticate_def authenticate_resolved_def accepting_def
        setup_session_def bindToAuthenticatorEvents_def Let_def)
  have d: "isAuthenticated logged_in" "triggered logged_in = [SessionAuthenticationSucceeded]"
    "triggered (init Map.empty) = []"
    by (simp_all add: logged_in_eq init_def)
  from setup_fires_on_edge [where cont = registry and factory = "JStr ''password''"
        and c = "[''token'' \<mapsto> JStr ''xyz'']" and trig = "JBool True" and s = "init Map.empty"
        and ?s1.0 = logged_in]
    setup_fires_on_edge [where cont = registry and factory = JNull and c = Map.empty
        and trig = "JBool True" and s = "init Map.empty" and e = TypeError
        and ?s2.0 = "state_of (setup_session registry JNull Map.empty (JBool True) (init Map.empty))"]
    setup_fires_on_edge [where cont = registry and factory = "JStr ''token''" and s = logged_in
        and options = credentials and v = JUndefined
        and ?s3.0 = "state_of (authenticate registry (JStr ''token'') credentials logged_in)"]
  show ?thesis using setup_logged_in b c d by simp
qed

subsection \<open>C8: clearing twice\<close>

text \<open>
  C8: a second \<^verbatim>\<open>clear\<close> right after a first changes nothing, the trace included, so two
  calls of \<^verbatim>\<open>clear(true)\<close> in a row trigger \<^verbatim>\<open>sessionInvalidationSucceeded\<close> once when the
  session was authenticated and not at all otherwise.
\<close>

theorem clear_twice_one_event:
  "clear t2 (clear t1 s) = clear t1 s \<and>
   triggered (clear (JBool True) (clear (JBool True) s)) =
     triggered s @ (if isAuthenticated s then [SessionInvalidationSucceeded] else [])"
  by (simp add: session_defs)

theorem clear_twice_one_event_witness:
  "triggered (clear (JBool True) (clear (JBool True) logged_in)) =
     [SessionAuthenticationSucceeded, SessionInvalidationSucceeded]"
  using clear_twice_one_event [of "JBool True" "JBool True" logged_in]
  by (simp add: logged_in_eq clear_triggered)

subsection \<open>C9: a silent restore\<close>

text \<open>
  C9: when the Store's snapshot carries an \<^verbatim>\<open>authenticatorFactory\<close> and that
  authenticator's \<^verbatim>\<open>restore\<close> resolves with some content, \<^verbatim>\<open>restore()\<close> is fulfilled, the
  session is authenticated with that factory and that content, and no event is triggered.
\<close>

theorem restore_success_silent:
  assumes "js_get (store s) ''authenticatorFactory'' = factory"
    and "truthy factory"
    and "lookup cont factory = Some (name, a)"
    and "auth_restore a (js_delete (store s) ''authenticatorFactory'') = Resolves c"
  shows "\<exists>s'. restore cont s = Returns (Fulfilled JUndefined) s' \<and>
           isAuthenticated s' \<and> authenticatorFactory s' = factory \<and> content s' = c \<and>
           triggered s' = triggered s"
proof -
  obtain s' where s': "setup_session cont factory c JUndefined s = Returns () s'"
    using assms(3) by (auto simp add: setup_returns)
  then have "restore cont s = Returns (Fulfilled JUndefined) s'"
    using assms by (simp add: restore_def restore_resolved_def store_restore_def)
  moreover from s' have "isAuthenticated s' \<and> authenticatorFactory s' = factory \<and> content s' = c \<and>
           triggered s' = triggered s"
    by (auto simp add: setup_returns)
  ultimately show ?thesis by blast
qed

text \<open>Scenario D.\<close>

theorem restore_success_silent_witness:
  "\<exists>s'. restore registry (init token_snapshot) = Returns (Fulfilled JUndefined) s' \<and>
           isAuthenticated s' \<and> authenticatorFactory s' = JStr ''token'' \<and>
           content s' = [''token'' \<mapsto> JStr ''abc'', ''user'' \<mapsto> JStr ''u''] \<and>
           triggered s' = []"
proof -
  have "[''token'' \<mapsto> JStr ''abc'', ''user'' \<mapsto> JStr ''u'']
          = (js_delete token_snapshot ''authenticatorFactory'')(''user'' \<mapsto> JStr ''u'')"
    by (auto simp add: js_delete_def token_snapshot_def)
  then show ?thesis
    using restore_success_silent [of "init token_snapshot" "JStr ''token''" registry "''token''"
        accepting "[''token'' \<mapsto> JStr ''abc'', ''user'' \<mapsto> JStr ''u'']"]
    by (simp add: js_get_def init_def token_snapshot_def accepting_def)
qed

subsection \<open>C10: the content's own \<^verbatim>\<open>authenticatorFactory\<close> entry\<close>

text \<open>
  C10 says that the entries of the content take precedence in the persisted snapshot, so
  that a content with an \<^verbatim>\<open>authenticatorFactory\<close> entry whose value differs from the factory
  is persisted with that value. The merge skips entries whose value is \<^verbatim>\<open>undefined\<close>: for
  the content \<^verbatim>\<open>{authenticatorFactory: undefined}\<close> the snapshot records the factory
  \<^verbatim>\<open>password\<close>.
\<close>

theorem setup_snapshot_factory_counterexample:
  "[''authenticatorFactory'' \<mapsto> JUndefined] ''authenticatorFactory'' = Some JUndefined \<and>
   JUndefined \<noteq> JStr ''password'' \<and>
   value_of (setup_session registry (JStr ''password'') [''authenticatorFactory'' \<mapsto> JUndefined]
               (JBool True) (init Map.empty)) = Some () \<and>
   js_get (store (state_of (setup_session registry (JStr ''password'')
                    [''authenticatorFactory'' \<mapsto> JUndefined] (JBool True) (init Map.empty))))
       ''authenticatorFactory'' = JStr ''password''"
  by (simp add: setup_session_def bindToAuthenticatorEvents_def session_defs js_get_def js_extend_apply)

text \<open>
  C10 as amended: in a \<^verbatim>\<open>setup\<close> that completes, every entry of the content whose value is
  not \<^verbatim>\<open>undefined\<close> is in the persisted snapshot; so a content with an
  \<^verbatim>\<open>authenticatorFactory\<close> entry whose value is not \<^verbatim>\<open>undefined\<close> is persisted with that
  value, whatever the factory the session is bound to, and the snapshot records the factory
  when the content has no such entry or has it as \<^verbatim>\<open>undefined\<close>.
\<close>

theorem setup_snapshot_precedence:
  assumes "setup_session cont factory c trig s = Returns () s'"
  shows "(\<forall>k v. c k = Some v \<and> v \<noteq> JUndefined \<longrightarrow> store s' k = Some v) \<and>
         (\<forall>v. c ''authenticatorFactory'' = Some v \<and> v \<noteq> JUndefined \<longrightarrow>
                js_get (store s') ''authenticatorFactory'' = v \<and> authenticatorFactory s' = factory) \<and>
         (c ''authenticatorFactory'' = None \<or> c ''authenticatorFactory'' = Some JUndefined \<longrightarrow>
                js_get (store s') ''authenticatorFactory'' = factory)"
  using assms by (auto simp add: setup_returns js_extend_apply js_get_def)

theorem setup_snapshot_precedence_witness:
  "js_get (store (state_of (setup_session registry (JStr ''password'')
                    [''authenticatorFactory'' \<mapsto> JStr ''token'', ''token'' \<mapsto> JStr ''xyz'']
                    (JBool True) (init Map.empty))))
       ''authenticatorFactory'' = JStr ''token'' \<and>
   authenticatorFactory (state_of (setup_session registry (JStr ''password'')
                    [''authenticatorFactory'' \<mapsto> JStr ''token'', ''token'' \<mapsto> JStr ''xyz'']
                    (JBool True) (init Map.empty))) = JStr ''password''"
proof -
  let ?c = "[''authenticatorFactory'' \<mapsto> JStr ''token'', ''token'' \<mapsto> JStr ''xyz'']"
  let ?r = "setup_session registry (JStr ''password'') ?c (JBool True) (init Map.empty)"
  have a: "?r = Returns () (state_of ?r)"
    by (simp add: setup_session_def bindToAuthenticatorEvents_def Let_def)
  from setup_snapshot_precedence [OF a] show ?thesis by simp
qed

end
